theory Spec2Isabelle
  imports Complex_Main "HOL-Library.Sublist" "HOL-Library.AList"
begin

section \<open>JavaScript values used by the provider\<close>

text \<open>
  Text is a \<^typ>\<open>string\<close>, read as the UTF-8 bytes of the JavaScript string.
  A property that may be \<^verbatim>\<open>undefined\<close> or \<^verbatim>\<open>null\<close> is an \<^typ>\<open>'a option\<close>.
  JavaScript numbers are \<^typ>\<open>int\<close> where the provider counts tokens and
  \<^typ>\<open>real\<close> for the temperature; \<^verbatim>\<open>NaN\<close> and the infinities have no
  counterpart here (\<^verbatim>\<open>NaN\<close> is falsy and takes the default like an absent value).
\<close>

text \<open>
  \<^verbatim>\<open>x || d\<close> on an optional number: the falsy numbers are \<^verbatim>\<open>undefined\<close> and \<^verbatim>\<open>0\<close>.
\<close>

definition num_or :: "'a::zero option \<Rightarrow> 'a \<Rightarrow> 'a" where
  "num_or x d = (case x of None \<Rightarrow> d | Some v \<Rightarrow> if v = 0 then d else v)"

text \<open>Truthiness of an optional string: present and not the empty string.\<close>

definition truthy :: "string option \<Rightarrow> bool" where
  "truthy s = (case s of None \<Rightarrow> False | Some v \<Rightarrow> v \<noteq> [])"

text \<open>\<^verbatim>\<open>haystack.includes(needle)\<close>: the needle occurs as a contiguous run.\<close>

definition str_includes :: "string \<Rightarrow> string \<Rightarrow> bool" where
  "str_includes haystack needle = sublist needle haystack"

text \<open>\<^verbatim>\<open>Array.prototype.join\<close> on strings.\<close>

fun join :: "string \<Rightarrow> string list \<Rightarrow> string" where
  "join sep [] = []"
| "join sep [x] = x"
| "join sep (x # y # ys) = x @ sep @ join sep (y # ys)"

subsection \<open>\<^verbatim>\<open>String.prototype.trim\<close>\<close>

text \<open>
  \<^verbatim>\<open>trim\<close> removes the ECMAScript WhiteSpace and LineTerminator code points from both
  ends. In UTF-8 these are the single bytes 09, 0A, 0B, 0C, 0D, 20, the pair C2 A0
  (U+00A0) and the triples for U+1680, U+2000..U+200A, U+2028, U+2029, U+202F, U+205F,
  U+3000 and U+FEFF.
\<close>

definition ws1 :: "char \<Rightarrow> bool" where
  "ws1 a = (a \<in> {CHR 0x09, CHR 0x0A, CHR 0x0B, CHR 0x0C, CHR 0x0D, CHR 0x20})"

definition ws2 :: "char \<Rightarrow> char \<Rightarrow> bool" where
  "ws2 a b = (a = CHR 0xC2 \<and> b = CHR 0xA0)"

definition ws3 :: "char \<Rightarrow> char \<Rightarrow> char \<Rightarrow> bool" where
  "ws3 a b c =
     ((a = CHR 0xE1 \<and> b = CHR 0x9A \<and> c = CHR 0x80)
    \<or> (a = CHR 0xE2 \<and> b = CHR 0x80 \<and> (0x80::nat) \<le> of_char c \<and> of_char c \<le> (0x8A::nat))
    \<or> (a = CHR 0xE2 \<and> b = CHR 0x80 \<and> c \<in> {CHR 0xA8, CHR 0xA9, CHR 0xAF})
    \<or> (a = CHR 0xE2 \<and> b = CHR 0x81 \<and> c = CHR 0x9F)
    \<or> (a = CHR 0xE3 \<and> b = CHR 0x80 \<and> c = CHR 0x80)
    \<or> (a = CHR 0xEF \<and> b = CHR 0xBB \<and> c = CHR 0xBF))"

text \<open>
  Dropping leading white space, given the tests for two-byte and three-byte white space
  (so that the same function serves the reversed string).
\<close>

fun strip_ws :: "(char \<Rightarrow> char \<Rightarrow> bool) \<Rightarrow> (char \<Rightarrow> char \<Rightarrow> char \<Rightarrow> bool) \<Rightarrow> string \<Rightarrow> string" where
  "strip_ws w2 w3 (a # b # c # s) =
     (if ws1 a then strip_ws w2 w3 (b # c # s)
      else if w2 a b then strip_ws w2 w3 (c # s)
      else if w3 a b c then strip_ws w2 w3 s
      else a # b # c # s)"
| "strip_ws w2 w3 [a, b] =
     (if ws1 a then strip_ws w2 w3 [b] else if w2 a b then [] else [a, b])"
| "strip_ws w2 w3 [a] = (if ws1 a then [] else [a])"
| "strip_ws w2 w3 [] = []"

definition trimStart :: "string \<Rightarrow> string" where
  "trimStart s = strip_ws ws2 ws3 s"

definition trimEnd :: "string \<Rightarrow> string" where
  "trimEnd s = rev (strip_ws (\<lambda>a b. ws2 b a) (\<lambda>a b c. ws3 c b a) (rev s))"

definition trim :: "string \<Rightarrow> string" where
  "trim s = trimEnd (trimStart s)"

section \<open>Model catalogue\<close>

record capabilities =
  toolCalling :: bool
  vision :: bool

record language_model_chat_information =
  model_id :: string
  model_name :: string
  model_description :: string
  model_family :: string
  maxInputTokens :: int
  maxOutputTokens :: int
  model_version :: string
  model_capabilities :: "capabilities option"

definition getChatModelInfo :: "string \<Rightarrow> string \<Rightarrow> int \<Rightarrow> int \<Rightarrow> bool \<Rightarrow> language_model_chat_information" where
  "getChatModelInfo ident nm maxIn maxOut supportsTools =
     \<lparr>model_id = ident, model_name = nm, model_description = ''v0.dev model: '' @ nm,
      model_family = ''v0dev'', maxInputTokens = maxIn, maxOutputTokens = maxOut,
      model_version = ''1.0.0'',
      model_capabilities = Some \<lparr>toolCalling = supportsTools, vision = True\<rparr>\<rparr>"

definition prepareLanguageModelChat :: "language_model_chat_information list" where
  "prepareLanguageModelChat =
     [getChatModelInfo ''v0-1.5-md'' ''v0 1.5 MD (Everyday tasks and UI generation)'' 128000 64000 True,
      getChatModelInfo ''v0-1.5-lg'' ''v0 1.5 LG (Advanced thinking/reasoning)'' 512000 64000 True,
      getChatModelInfo ''v0-1.0-md'' ''v0 1.0 MD (Legacy model)'' 128000 64000 True]"

section \<open>Request construction\<close>

text \<open>
  \<^verbatim>\<open>options.modelOptions\<close> is an optional bag of values; the provider reads its
  \<^verbatim>\<open>maxTokens\<close> and \<^verbatim>\<open>temperature\<close>. A tool of the catalogue has a name, a
  description and an optional input schema of some JSON type \<^typ>\<open>'j\<close>.
\<close>

record model_options =
  maxTokens :: "int option"
  temperature :: "real option"

record 'j chat_tool =
  tool_name :: string
  tool_description :: string
  inputSchema :: "'j option"

record 'j request_options =
  modelOptions :: "model_options option"
  tools :: "'j chat_tool list option"
  toolMode :: int

text \<open>\<^verbatim>\<open>options.modelOptions?.maxTokens\<close> and \<^verbatim>\<open>options.modelOptions?.temperature\<close>.\<close>

definition requested_maxTokens :: "('j, 'x) request_options_scheme \<Rightarrow> int option" where
  "requested_maxTokens options = (case modelOptions options of None \<Rightarrow> None | Some mo \<Rightarrow> maxTokens mo)"

definition requested_temperature :: "('j, 'x) request_options_scheme \<Rightarrow> real option" where
  "requested_temperature options = (case modelOptions options of None \<Rightarrow> None | Some mo \<Rightarrow> temperature mo)"

text \<open>
  \<^verbatim>\<open>max_tokens: Math.min(options.modelOptions?.maxTokens || 4000, model.maxOutputTokens)\<close>
  and
  \<^verbatim>\<open>temperature: Math.max(0, Math.min(2, options.modelOptions?.temperature || 0.7))\<close>.
\<close>

definition build_max_tokens :: "language_model_chat_information \<Rightarrow> ('j, 'x) request_options_scheme \<Rightarrow> int" where
  "build_max_tokens model options = min (num_or (requested_maxTokens options) 4000) (maxOutputTokens model)"

definition build_temperature :: "('j, 'x) request_options_scheme \<Rightarrow> real" where
  "build_temperature options = max 0 (min 2 (num_or (requested_temperature options) 0.7))"

text \<open>
  Tools are attached when the model supports tool calling and the catalogue is not empty;
  \<^verbatim>\<open>tool.inputSchema || {type: "object", properties: {}, required: []}\<close> is
  \<open>Schema s\<close> for a given schema and \<open>EmptyObjectSchema\<close> for the default object.
\<close>

datatype 'j parameters_schema = Schema 'j | EmptyObjectSchema

record 'j openai_tool =
  ot_type :: string
  ot_name :: string
  ot_description :: string
  ot_parameters :: "'j parameters_schema"

datatype tool_choice = Required | Auto

section \<open>Chat messages and their translation\<close>

datatype chat_role = User | Assistant | System

datatype openai_role = user | assistant | system | tool

text \<open>
  The content parts of the host: a text part with its value, a tool-call part with its
  call id, name and parameters, a tool-result part with its call id and its content
  items. A content item of a tool result either has a \<^verbatim>\<open>value\<close> (given as
  \<^verbatim>\<open>join\<close> renders it) or has none.
\<close>

datatype 'j content_part =
    LanguageModelTextPart string
  | LanguageModelToolCallPart string string 'j
  | LanguageModelToolResultPart string "string option list"

datatype 'j message_content = Text string | Parts "'j content_part list"

record 'j language_model_chat_message =
  msg_role :: chat_role
  msg_content :: "'j message_content"

record function_call =
  fc_name :: string
  fc_arguments :: string

record openai_tool_call =
  call_id :: string
  call_type :: string
  call_function :: function_call

record outbound_message =
  out_role :: openai_role
  out_content :: string
  tool_call_id :: "string option"
  tool_calls :: "openai_tool_call list option"

definition convertRole :: "chat_role \<Rightarrow> openai_role" where
  "convertRole r = (case r of User \<Rightarrow> user | Assistant \<Rightarrow> assistant | _ \<Rightarrow> user)"

text \<open>\<^verbatim>\<open>part instanceof LanguageModelTextPart\<close> and \<^verbatim>\<open>part instanceof LanguageModelToolCallPart\<close>.\<close>

fun isTextPart :: "'j content_part \<Rightarrow> bool" where
  "isTextPart (LanguageModelTextPart v) = True"
| "isTextPart _ = False"

fun isToolCallPart :: "'j content_part \<Rightarrow> bool" where
  "isToolCallPart (LanguageModelToolCallPart c n p) = True"
| "isToolCallPart _ = False"

text \<open>
  The filter behind \<^verbatim>\<open>toolResults\<close>: the constructor name includes
  \<^verbatim>\<open>ToolResult\<close> or \<^verbatim>\<open>ToolCall\<close>, or the part has a \<^verbatim>\<open>callId\<close> or a
  \<^verbatim>\<open>result\<close>. It holds of tool-result parts and of tool-call parts alike.
\<close>

fun looksLikeToolResult :: "'j content_part \<Rightarrow> bool" where
  "looksLikeToolResult (LanguageModelTextPart v) = False"
| "looksLikeToolResult (LanguageModelToolCallPart c n p) = True"
| "looksLikeToolResult (LanguageModelToolResultPart c items) = True"

fun partValue :: "'j content_part \<Rightarrow> string" where
  "partValue (LanguageModelTextPart v) = v"
| "partValue _ = []"

definition textPartsOf :: "'j content_part list \<Rightarrow> string" where
  "textPartsOf ps = concat (map partValue (filter isTextPart ps))"

definition toolCallOut :: "('j \<Rightarrow> string) \<Rightarrow> 'j content_part \<Rightarrow> openai_tool_call list" where
  "toolCallOut stringify tc =
     (case tc of
        LanguageModelToolCallPart callId nm parameters \<Rightarrow>
          [\<lparr>call_id = callId, call_type = ''function'',
            call_function = \<lparr>fc_name = nm, fc_arguments = stringify parameters\<rparr>\<rparr>]
      | _ \<Rightarrow> [])"

text \<open>
  One tool message per element of \<^verbatim>\<open>toolResults\<close>. A tool-result part carries a
  content array, so its text is the values of the items that have one, joined by a
  newline. For the other parts, which have neither \<^verbatim>\<open>content\<close> nor
  \<^verbatim>\<open>result\<close>, the text is the last resort \<^verbatim>\<open>JSON.stringify(tr)\<close>, a parameter here.
\<close>

definition toolResultMessage :: "('j content_part \<Rightarrow> string) \<Rightarrow> 'j content_part \<Rightarrow> outbound_message" where
  "toolResultMessage stringify_part tr =
     (case tr of
        LanguageModelToolResultPart callId items \<Rightarrow>
          \<lparr>out_role = tool, out_content = join ''\<newline>'' (List.map_filter (\<lambda>item. item) items),
           tool_call_id = Some callId, tool_calls = None\<rparr>
      | LanguageModelToolCallPart callId nm parameters \<Rightarrow>
          \<lparr>out_role = tool, out_content = stringify_part tr,
           tool_call_id = Some callId, tool_calls = None\<rparr>
      | LanguageModelTextPart v \<Rightarrow>
          \<lparr>out_role = tool, out_content = stringify_part tr,
           tool_call_id = None, tool_calls = None\<rparr>)"

text \<open>
  The body of the loop over \<^verbatim>\<open>messages\<close>: what one message pushes onto
  \<^verbatim>\<open>openaiMessages\<close>. \<open>stringify\<close> is \<^verbatim>\<open>JSON.stringify\<close> on the parameters of a
  tool call.
\<close>

definition translateMessage ::
  "('j \<Rightarrow> string) \<Rightarrow> ('j content_part \<Rightarrow> string) \<Rightarrow> 'j language_model_chat_message \<Rightarrow> outbound_message list" where
  "translateMessage stringify stringify_part msg =
     (case msg_content msg of
        Parts ps \<Rightarrow>
          (let textParts = textPartsOf ps;
               toolCalls = filter isToolCallPart ps;
               toolResults = filter looksLikeToolResult ps
           in if length toolCalls > 0 then
                [\<lparr>out_role = assistant, out_content = textParts, tool_call_id = None,
                  tool_calls = Some (concat (map (toolCallOut stringify) toolCalls))\<rparr>]
              else if length toolResults > 0 then
                map (toolResultMessage stringify_part) toolResults
              else if length (trim textParts) > 0 then
                [\<lparr>out_role = convertRole (msg_role msg), out_content = textParts,
                  tool_call_id = None, tool_calls = None\<rparr>]
              else [])
      | Text content \<Rightarrow>
          (if length (trim content) > 0 then
             [\<lparr>out_role = convertRole (msg_role msg), out_content = content,
               tool_call_id = None, tool_calls = None\<rparr>]
           else []))"

definition translate ::
  "('j \<Rightarrow> string) \<Rightarrow> ('j content_part \<Rightarrow> string) \<Rightarrow> 'j language_model_chat_message list \<Rightarrow> outbound_message list" where
  "translate stringify stringify_part messages = concat (map (translateMessage stringify stringify_part) messages)"

section \<open>The streaming request\<close>

record 'j chat_completion_params =
  req_model :: string
  req_messages :: "outbound_message list"
  req_stream :: bool
  max_tokens :: int
  req_temperature :: real
  req_tools :: "'j openai_tool list option"
  req_tool_choice :: "tool_choice option"

definition baseParams ::
  "language_model_chat_information \<Rightarrow> outbound_message list \<Rightarrow> ('j, 'x) request_options_scheme \<Rightarrow> 'j chat_completion_params" where
  "baseParams model openaiMessages options =
     \<lparr>req_model = model_id model, req_messages = openaiMessages, req_stream = True,
      max_tokens = build_max_tokens model options,
      req_temperature = build_temperature options,
      req_tools = None, req_tool_choice = None\<rparr>"

definition openaiTool :: "('j, 'x) chat_tool_scheme \<Rightarrow> 'j openai_tool" where
  "openaiTool t =
     \<lparr>ot_type = ''function'', ot_name = tool_name t, ot_description = tool_description t,
      ot_parameters = (case inputSchema t of Some s \<Rightarrow> Schema s | None \<Rightarrow> EmptyObjectSchema)\<rparr>"

definition supportsToolCalling :: "language_model_chat_information \<Rightarrow> bool" where
  "supportsToolCalling model = (case model_capabilities model of None \<Rightarrow> False | Some c \<Rightarrow> toolCalling c)"

definition requestParams ::
  "language_model_chat_information \<Rightarrow> outbound_message list \<Rightarrow> 'j request_options \<Rightarrow> 'j chat_completion_params" where
  "requestParams model openaiMessages options =
     (case tools options of
        Some ts \<Rightarrow>
          if supportsToolCalling model \<and> length ts > 0 then
            (baseParams model openaiMessages options)
              \<lparr>req_tools := Some (map openaiTool ts),
               req_tool_choice := Some (if toolMode options = 2 then Required else Auto)\<rparr>
          else baseParams model openaiMessages options
      | None \<Rightarrow> baseParams model openaiMessages options)"

section \<open>Reassembling the response stream\<close>

text \<open>
  A chunk is its first choice, \<^verbatim>\<open>chunk.choices?.[0]\<close>, if it has one. The index of a
  tool-call fragment is the position of the call in the upstream's array of tool calls,
  a natural number.
\<close>

record function_delta =
  fn_name :: "string option"
  fn_arguments :: "string option"

record tool_call_delta =
  tc_index :: "nat option"
  tc_id :: "string option"
  tc_function :: "function_delta option"

record delta =
  delta_content :: "string option"
  delta_tool_calls :: "tool_call_delta list option"

record choice =
  choice_delta :: "delta option"
  finish_reason :: "string option"

type_synonym chunk = "choice option"

text \<open>The entries of \<^verbatim>\<open>toolCallsInProgress\<close> and the events reported to the host.\<close>

record pending =
  pending_id :: "string option"
  pending_name :: "string option"
  pending_arguments :: string

type_synonym tool_calls_in_progress = "(nat \<times> pending) list"

record 'j chat_response_fragment =
  index :: nat
  part :: "'j content_part"

text \<open>\<^verbatim>\<open>toolCall.function?.name\<close> and \<^verbatim>\<open>toolCall.function?.arguments\<close>.\<close>

definition deltaName :: "tool_call_delta \<Rightarrow> string option" where
  "deltaName toolCall = (case tc_function toolCall of None \<Rightarrow> None | Some f \<Rightarrow> fn_name f)"

definition deltaArguments :: "tool_call_delta \<Rightarrow> string option" where
  "deltaArguments toolCall = (case tc_function toolCall of None \<Rightarrow> None | Some f \<Rightarrow> fn_arguments f)"

text \<open>\<^verbatim>\<open>toolCall.index || 0\<close>.\<close>

definition deltaIndex :: "tool_call_delta \<Rightarrow> nat" where
  "deltaIndex toolCall = num_or (tc_index toolCall) 0"

text \<open>
  The body of the loop over \<^verbatim>\<open>delta.tool_calls\<close>: create the entry if there is
  none, set a truthy id, set a truthy name, append truthy argument text.
\<close>

definition trackToolCall :: "tool_calls_in_progress \<Rightarrow> tool_call_delta \<Rightarrow> tool_calls_in_progress" where
  "trackToolCall tbl toolCall =
     (let toolIndex = deltaIndex toolCall;
          e0 = (case map_of tbl toolIndex of
                  None \<Rightarrow> \<lparr>pending_id = None, pending_name = None, pending_arguments = []\<rparr>
                | Some e \<Rightarrow> e);
          e1 = (if truthy (tc_id toolCall) then e0\<lparr>pending_id := tc_id toolCall\<rparr> else e0);
          e2 = (if truthy (deltaName toolCall) then e1\<lparr>pending_name := deltaName toolCall\<rparr> else e1);
          e3 = (case deltaArguments toolCall of
                  Some a \<Rightarrow> if a \<noteq> [] then e2\<lparr>pending_arguments := pending_arguments e2 @ a\<rparr> else e2
                | None \<Rightarrow> e2)
      in AList.update toolIndex e3 tbl)"

text \<open>
  The table keeps its keys in the order in which they were added: \<open>AList.update\<close>
  replaces the value of a key that is there and puts a new key at the end.
  \<^verbatim>\<open>Object.entries\<close> enumerates first the keys that are array indices, the integers
  from 0 to 2^32 - 2, in ascending numeric order, and after them the other keys in the
  order in which they were added.
\<close>

definition isArrayIndex :: "nat \<Rightarrow> bool" where
  "isArrayIndex k = (k < 4294967295)"

definition Object_entries :: "tool_calls_in_progress \<Rightarrow> (nat \<times> pending) list" where
  "Object_entries tbl =
     sort_key fst (filter (\<lambda>entry. isArrayIndex (fst entry)) tbl)
     @ filter (\<lambda>entry. \<not> isArrayIndex (fst entry)) tbl"

text \<open>
  The body of the loop over the entries at a \<^verbatim>\<open>tool_calls\<close> finish. \<open>parse\<close> is
  \<^verbatim>\<open>JSON.parse\<close>, with \<open>None\<close> where it throws. The index of the event,
  \<^verbatim>\<open>parseInt(toolIndex)\<close>, is the key read back as a number.
\<close>

definition reportToolCall :: "(string \<Rightarrow> 'j option) \<Rightarrow> nat \<times> pending \<Rightarrow> 'j chat_response_fragment list" where
  "reportToolCall parse entry =
     (case entry of (toolIndex, toolCallData) \<Rightarrow>
        (case (pending_id toolCallData, pending_name toolCallData) of
           (Some i, Some n) \<Rightarrow>
             if i \<noteq> [] \<and> n \<noteq> [] \<and> pending_arguments toolCallData \<noteq> [] then
               (case parse (pending_arguments toolCallData) of
                  Some parsedArgs \<Rightarrow>
                    [\<lparr>index = toolIndex, part = LanguageModelToolCallPart i n parsedArgs\<rparr>]
                | None \<Rightarrow>
                    [\<lparr>index = toolIndex,
                      part = LanguageModelTextPart
                        (''[Tool Call: '' @ n @ ''('' @ pending_arguments toolCallData @ '')]'')\<rparr>])
             else []
         | _ \<Rightarrow> []))"

definition processCompleted :: "(string \<Rightarrow> 'j option) \<Rightarrow> tool_calls_in_progress \<Rightarrow> 'j chat_response_fragment list" where
  "processCompleted parse tbl = concat (map (reportToolCall parse) (Object_entries tbl))"

text \<open>The text event of a chunk: \<^verbatim>\<open>if (delta?.content)\<close>, reported at index 0.\<close>

definition chunkDelta :: "chunk \<Rightarrow> delta option" where
  "chunkDelta c = (case c of None \<Rightarrow> None | Some ch \<Rightarrow> choice_delta ch)"

definition chunkFinish :: "chunk \<Rightarrow> string option" where
  "chunkFinish c = (case c of None \<Rightarrow> None | Some ch \<Rightarrow> finish_reason ch)"

definition chunkToolCalls :: "chunk \<Rightarrow> tool_call_delta list" where
  "chunkToolCalls c =
     (case chunkDelta c of
        None \<Rightarrow> []
      | Some d \<Rightarrow> (case delta_tool_calls d of None \<Rightarrow> [] | Some tcs \<Rightarrow> tcs))"

definition textEvent :: "chunk \<Rightarrow> 'j chat_response_fragment list" where
  "textEvent c =
     (case chunkDelta c of
        None \<Rightarrow> []
      | Some d \<Rightarrow>
          (case delta_content d of
             None \<Rightarrow> []
           | Some s \<Rightarrow> if s \<noteq> [] then [\<lparr>index = 0, part = LanguageModelTextPart s\<rparr>] else []))"

text \<open>
  One pass of the loop body after the cancellation check: the text event, then either
  the finish (which ends the loop) or the tool-call fragments of the chunk.
\<close>

datatype loop_control = Break | Continue tool_calls_in_progress

definition processChunk ::
  "(string \<Rightarrow> 'j option) \<Rightarrow> tool_calls_in_progress \<Rightarrow> chunk \<Rightarrow> 'j chat_response_fragment list \<times> loop_control" where
  "processChunk parse tbl c =
     (if truthy (chunkFinish c) then
        (textEvent c @ (if chunkFinish c = Some ''tool_calls'' then processCompleted parse tbl else []),
         Break)
      else (textEvent c, Continue (foldl trackToolCall tbl (chunkToolCalls c))))"

section \<open>Failures and the response stream\<close>

text \<open>
  A thrown value is an \<^verbatim>\<open>Error\<close> object, with the name of its constructor, its
  message and the optional \<^verbatim>\<open>status\<close>, \<^verbatim>\<open>code\<close> and \<^verbatim>\<open>type\<close> properties
  as a template literal renders them, or some other value. Of a value that is not an
  \<^verbatim>\<open>Error\<close> the provider uses only what \<^verbatim>\<open>JSON.stringify\<close> makes of it: a
  rendering, or the \<^verbatim>\<open>TypeError\<close> that \<^verbatim>\<open>JSON.stringify\<close> throws on a circular
  structure and on a \<^verbatim>\<open>BigInt\<close>.
\<close>

record js_error =
  err_constructor :: string
  err_message :: string
  err_status :: "string option"
  err_code :: "string option"
  err_type :: "string option"

datatype stringified = Rendering string | StringifyThrows js_error

datatype thrown = ErrorObject js_error | NonError stringified

text \<open>
  What the asynchronous iteration over the stream delivers: a chunk, together with the
  value of \<^verbatim>\<open>token.isCancellationRequested\<close> read when that chunk is taken up, or a
  failure thrown by the iteration. The end of the list is the end of the stream.
\<close>

datatype stream_item = Yield chunk bool | Fail thrown

text \<open>
  The \<^verbatim>\<open>for await\<close> loop: the events reported by it and, if the iteration threw, the
  thrown value.
\<close>

fun streamLoop ::
  "(string \<Rightarrow> 'j option) \<Rightarrow> tool_calls_in_progress \<Rightarrow> stream_item list \<Rightarrow> 'j chat_response_fragment list \<times> thrown option" where
  "streamLoop parse tbl [] = ([], None)"
| "streamLoop parse tbl (Fail e # rest) = ([], Some e)"
| "streamLoop parse tbl (Yield c isCancellationRequested # rest) =
     (if isCancellationRequested then ([], None)
      else (case processChunk parse tbl c of
              (evs, Break) \<Rightarrow> (evs, None)
            | (evs, Continue tbl') \<Rightarrow>
                (case streamLoop parse tbl' rest of (evs', r) \<Rightarrow> (evs @ evs', r))))"

subsection \<open>The error report\<close>

definition crossMark :: string where
  "crossMark = [CHR 0xE2, CHR 0x9D, CHR 0x8C]"

definition bullet :: string where
  "bullet = [CHR 0xE2, CHR 0x80, CHR 0xA2]"

definition friendlyMessage :: "string \<Rightarrow> string" where
  "friendlyMessage errorMessage =
     (if str_includes errorMessage ''401'' \<or> str_includes errorMessage ''Unauthorized'' then
        crossMark @ '' Invalid API key. Please check your v0.dev API key and try again.\<newline>\<newline>Get your API key at: https://v0.dev/chat/settings/keys''
      else if str_includes errorMessage ''403'' \<or> str_includes errorMessage ''Forbidden'' then
        crossMark @ '' Access denied. Please check your API key permissions or account status.''
      else if str_includes errorMessage ''429'' \<or> str_includes errorMessage ''rate limit'' then
        crossMark @ '' Rate limit exceeded. Please wait a moment and try again.''
      else if str_includes errorMessage ''500'' \<or> str_includes errorMessage ''Internal Server Error'' then
        crossMark @ '' v0.dev service error. Please try again later.''
      else if str_includes errorMessage ''network'' \<or> str_includes errorMessage ''fetch'' then
        crossMark @ '' Network error. Please check your internet connection and try again.''
      else errorMessage)"

definition debugInfoOf :: "js_error \<Rightarrow> string" where
  "debugInfoOf e =
     ''\<newline>\<newline>Debug info:\<newline>- Error type: '' @ err_constructor e @ ''\<newline>- Message: '' @ err_message e
     @ (case err_status e of Some v \<Rightarrow> ''\<newline>- HTTP Status: '' @ v | None \<Rightarrow> [])
     @ (case err_code e of Some v \<Rightarrow> ''\<newline>- Error Code: '' @ v | None \<Rightarrow> [])
     @ (case err_type e of Some v \<Rightarrow> ''\<newline>- Type: '' @ v | None \<Rightarrow> [])"

text \<open>
  The \<^verbatim>\<open>catch\<close> block up to its report: the text it is about to report, or the
  \<^verbatim>\<open>TypeError\<close> thrown by its unguarded \<^verbatim>\<open>JSON.stringify(error)\<close>.
\<close>

definition errorText :: "thrown \<Rightarrow> js_error + string" where
  "errorText t =
     (case t of
        ErrorObject e \<Rightarrow>
          Inr (''Error calling v0.dev API: '' @ friendlyMessage (err_message e) @ debugInfoOf e)
      | NonError (Rendering rendering) \<Rightarrow>
          Inr (''Error calling v0.dev API: '' @ ''Unknown error occurred''
               @ ''\<newline>\<newline>Debug info:\<newline>- Non-Error object: '' @ rendering)
      | NonError (StringifyThrows typeError) \<Rightarrow> Inl typeError)"

subsection \<open>The client\<close>

record openai_client =
  apiKey :: string
  baseURL :: string

record provider_state =
  client :: "openai_client option"
  lastApiKey :: "string option"

text \<open>
  \<open>envKey\<close> is \<^verbatim>\<open>process.env.V0_API_KEY\<close>, \<open>configKey\<close> the \<^verbatim>\<open>apiKey\<close> setting of
  the \<^verbatim>\<open>v0dev\<close> configuration.
\<close>

definition getApiKey :: "string option \<Rightarrow> string option \<Rightarrow> string option" where
  "getApiKey envKey configKey =
     (if truthy envKey then envKey else if truthy configKey then configKey else None)"

text \<open>
  \<open>newOpenAI\<close> is the constructor \<^verbatim>\<open>new OpenAI({apiKey, baseURL})\<close>: the value it
  throws for these options, if it throws. \<open>ensureClient\<close> runs it unguarded, so it
  either throws that value or returns the new state of the provider and the client.
\<close>

definition ensureClient ::
  "(openai_client \<Rightarrow> thrown option) \<Rightarrow> provider_state \<Rightarrow> string option \<Rightarrow> string option
   \<Rightarrow> thrown + provider_state \<times> openai_client option" where
  "ensureClient newOpenAI this envKey configKey =
     (let key = getApiKey envKey configKey in
      if client this \<noteq> None \<and> lastApiKey this = key \<and> truthy key then Inr (this, client this)
      else (case key of
              None \<Rightarrow> Inr (\<lparr>client = None, lastApiKey = None\<rparr>, None)
            | Some k \<Rightarrow>
                if k = [] then Inr (\<lparr>client = None, lastApiKey = None\<rparr>, None)
                else (let c = \<lparr>apiKey = k, baseURL = ''https://api.v0.dev/v1''\<rparr>
                      in case newOpenAI c of
                           Some e \<Rightarrow> Inl e
                         | None \<Rightarrow> Inr (\<lparr>client = Some c, lastApiKey = Some k\<rparr>, Some c))))"

subsection \<open>The chat response\<close>

definition missingClientText :: string where
  "missingClientText =
     crossMark @ '' v0.dev API client not initialized.\<newline>\<newline>''
     @ ''Please set your API key:\<newline>''
     @ bullet @ '' Set V0_API_KEY environment variable, or\<newline>''
     @ bullet @ '' Configure 'v0dev.apiKey' in VS Code settings\<newline>\<newline>''
     @ ''Get your API key at: https://v0.dev/chat/settings/keys''"

text \<open>
  The body of the \<^verbatim>\<open>try\<close> block: the events it reports and, if it threw, the thrown
  value. \<open>upstream\<close> is \<^verbatim>\<open>client.chat.completions.create\<close>: for a client and a
  request it either throws or gives the stream.
\<close>

definition tryBody ::
  "(string \<Rightarrow> 'j option) \<Rightarrow> ('j \<Rightarrow> string) \<Rightarrow> ('j content_part \<Rightarrow> string)
   \<Rightarrow> (openai_client \<Rightarrow> 'j chat_completion_params \<Rightarrow> thrown + stream_item list)
   \<Rightarrow> openai_client \<Rightarrow> language_model_chat_information \<Rightarrow> 'j language_model_chat_message list
   \<Rightarrow> 'j request_options \<Rightarrow> 'j chat_response_fragment list \<times> thrown option" where
  "tryBody parse stringify stringify_part upstream c model messages options =
     (let openaiMessages = translate stringify stringify_part messages in
      if length openaiMessages = 0 then
        ([\<lparr>index = 0, part = LanguageModelTextPart ''Error: No valid messages to process.''\<rparr>], None)
      else (case upstream c (requestParams model openaiMessages options) of
              Inl e \<Rightarrow> ([], Some e)
            | Inr stream \<Rightarrow> streamLoop parse [] stream))"

text \<open>
  \<^verbatim>\<open>provideLanguageModelChatResponse\<close>: the state of the provider after the call, the
  events reported to \<^verbatim>\<open>progress\<close> in order, and the value thrown to the caller, if
  any. \<open>ensureClient\<close> is called before the \<^verbatim>\<open>try\<close>, so what it throws goes to the
  caller; so does what the \<^verbatim>\<open>catch\<close> block throws.
\<close>

definition provideLanguageModelChatResponse ::
  "(string \<Rightarrow> 'j option) \<Rightarrow> ('j \<Rightarrow> string) \<Rightarrow> ('j content_part \<Rightarrow> string)
   \<Rightarrow> (openai_client \<Rightarrow> thrown option)
   \<Rightarrow> (openai_client \<Rightarrow> 'j chat_completion_params \<Rightarrow> thrown + stream_item list)
   \<Rightarrow> provider_state \<Rightarrow> string option \<Rightarrow> string option
   \<Rightarrow> language_model_chat_information \<Rightarrow> 'j language_model_chat_message list \<Rightarrow> 'j request_options
   \<Rightarrow> provider_state \<times> 'j chat_response_fragment list \<times> thrown option" where
  "provideLanguageModelChatResponse parse stringify stringify_part newOpenAI upstream this envKey configKey
     model messages options =
     (case ensureClient newOpenAI this envKey configKey of
        Inl e \<Rightarrow> (this, [], Some e)
      | Inr (this', None) \<Rightarrow>
          (this', [\<lparr>index = 0, part = LanguageModelTextPart missingClientText\<rparr>], None)
      | Inr (this', Some c) \<Rightarrow>
          (case tryBody parse stringify stringify_part upstream c model messages options of
             (evs, None) \<Rightarrow> (this', evs, None)
           | (evs, Some error) \<Rightarrow>
               (case errorText error of
                  Inr text \<Rightarrow>
                    (this', evs @ [\<lparr>index = 0, part = LanguageModelTextPart text\<rparr>], None)
                | Inl typeError \<Rightarrow> (this', evs, Some (ErrorObject typeError)))))"

section \<open>Describing a stream\<close>

text \<open>
  The definitions of this section are not functions of the provider. They say, in terms of
  the stream alone, what the loop has seen: which items it passes over without leaving
  the loop, the tool-call fragments and text events of a run of items, and what the
  fragments for one index add up to.
\<close>

text \<open>
  An item the loop consumes and goes on from: a chunk taken up while no cancellation is
  requested and without a truthy finish reason.
\<close>

definition continuing :: "stream_item \<Rightarrow> bool" where
  "continuing item =
     (case item of Yield c cancelled \<Rightarrow> \<not> cancelled \<and> \<not> truthy (chunkFinish c) | Fail e \<Rightarrow> False)"

definition streamToolCalls :: "stream_item list \<Rightarrow> tool_call_delta list" where
  "streamToolCalls items =
     concat (map (\<lambda>item. case item of Yield c cancelled \<Rightarrow> chunkToolCalls c | Fail e \<Rightarrow> []) items)"

definition streamText :: "stream_item list \<Rightarrow> 'j chat_response_fragment list" where
  "streamText items =
     concat (map (\<lambda>item. case item of Yield c cancelled \<Rightarrow> textEvent c | Fail e \<Rightarrow> []) items)"

text \<open>The table \<^verbatim>\<open>toolCallsInProgress\<close> after the fragments of a run of items.\<close>

definition tableAfter :: "stream_item list \<Rightarrow> tool_calls_in_progress" where
  "tableAfter items = foldl trackToolCall [] (streamToolCalls items)"

text \<open>
  The index a fragment declares, 0 if it declares none. The fragments a run of items
  delivers for one index, and what they add up to: the last truthy id, the last truthy
  name, and the argument texts in order of arrival.
\<close>

definition declaredIndex :: "tool_call_delta \<Rightarrow> nat" where
  "declaredIndex tc = (case tc_index tc of None \<Rightarrow> 0 | Some k \<Rightarrow> k)"

definition fragmentsFor :: "nat \<Rightarrow> stream_item list \<Rightarrow> tool_call_delta list" where
  "fragmentsFor i items = filter (\<lambda>tc. declaredIndex tc = i) (streamToolCalls items)"

definition lastTruthy :: "string option list \<Rightarrow> string option" where
  "lastTruthy xs = foldl (\<lambda>acc x. if truthy x then x else acc) None xs"

definition argumentText :: "tool_call_delta \<Rightarrow> string" where
  "argumentText tc = (case deltaArguments tc of None \<Rightarrow> [] | Some a \<Rightarrow> a)"

definition accumulated :: "tool_call_delta list \<Rightarrow> pending" where
  "accumulated frags =
     \<lparr>pending_id = lastTruthy (map tc_id frags),
      pending_name = lastTruthy (map deltaName frags),
      pending_arguments = concat (map argumentText frags)\<rparr>"

text \<open>
  A text that is white space only: nothing but encodings of white-space code points.
\<close>

inductive whitespaceOnly :: "string \<Rightarrow> bool" where
  empty: "whitespaceOnly []"
| one: "ws1 a \<Longrightarrow> whitespaceOnly s \<Longrightarrow> whitespaceOnly (a # s)"
| two: "ws2 a b \<Longrightarrow> whitespaceOnly s \<Longrightarrow> whitespaceOnly (a # b # s)"
| three: "ws3 a b c \<Longrightarrow> whitespaceOnly s \<Longrightarrow> whitespaceOnly (a # b # c # s)"

code_pred whitespaceOnly .

text \<open>A chunk without its tool-call fragments.\<close>

definition withoutToolCalls :: "chunk \<Rightarrow> chunk" where
  "withoutToolCalls c =
     map_option (\<lambda>ch. ch\<lparr>choice_delta := map_option (\<lambda>d. d\<lparr>delta_tool_calls := None\<rparr>) (choice_delta ch)\<rparr>) c"


subsection \<open>Examples\<close>

text \<open>
  Chunks for the examples: one tool-call fragment, a text delta, a finish.
\<close>

definition fragmentChunk :: "nat option \<Rightarrow> string option \<Rightarrow> string option \<Rightarrow> string option \<Rightarrow> chunk" where
  "fragmentChunk i ident nm args =
     Some \<lparr>choice_delta = Some \<lparr>delta_content = None,
              delta_tool_calls = Some [\<lparr>tc_index = i, tc_id = ident,
                                        tc_function = Some \<lparr>fn_name = nm, fn_arguments = args\<rparr>\<rparr>]\<rparr>,
           finish_reason = None\<rparr>"

definition textChunk :: "string \<Rightarrow> chunk" where
  "textChunk s =
     Some \<lparr>choice_delta = Some \<lparr>delta_content = Some s, delta_tool_calls = None\<rparr>, finish_reason = None\<rparr>"

definition finishChunk :: "string \<Rightarrow> chunk" where
  "finishChunk reason =
     Some \<lparr>choice_delta = Some \<lparr>delta_content = None, delta_tool_calls = None\<rparr>, finish_reason = Some reason\<rparr>"

text \<open>
  The examples take JSON values to be flat objects with integer members. On the two
  argument texts of the examples \<open>parseExample\<close> is \<^verbatim>\<open>JSON.parse\<close>: the text
  \<^verbatim>\<open>{"a":1}\<close> is the object with \<open>a = 1\<close>, the text \<^verbatim>\<open>{a:1}\<close> is a syntax error.
  \<open>stringifyExample\<close> is \<^verbatim>\<open>JSON.stringify\<close> on that object and on the empty object;
  \<open>stringifyPartExample\<close> stands for the last-resort rendering of a part, which no
  example reaches. The theorems are about every parser and every serialiser; these
  only run the examples.
\<close>

definition parseExample :: "string \<Rightarrow> (string \<times> int) list option" where
  "parseExample s = (if s = ''{\"a\":1}'' then Some [(''a'', 1)] else None)"

definition stringifyExample :: "(string \<times> int) list \<Rightarrow> string" where
  "stringifyExample v = (if v = [(''a'', 1)] then ''{\"a\":1}'' else ''{}'')"

definition stringifyPartExample :: "(string \<times> int) list content_part \<Rightarrow> string" where
  "stringifyPartExample p = ''{}''"

definition v0_15_md :: language_model_chat_information where
  "v0_15_md = getChatModelInfo ''v0-1.5-md'' ''v0 1.5 MD (Everyday tasks and UI generation)'' 128000 64000 True"

text \<open>
  Three runs of chunks. \<open>exampleCall\<close>: a text delta, then the arguments \<^verbatim>\<open>{"a":1}\<close> of
  the call \<open>f\<close> with id \<open>x\<close> in two fragments, the second without an index.
  \<open>exampleMalformed\<close>: the same call with the argument fragments \<^verbatim>\<open>{a:1\<close> and \<^verbatim>\<open>}\<close>.
  \<open>exampleIncomplete\<close>: a call at index 1 that never gets a name, beside the complete
  call at index 0.
\<close>

definition exampleCall :: "stream_item list" where
  "exampleCall =
     [Yield (textChunk ''Hi'') False,
      Yield (fragmentChunk (Some 0) (Some ''x'') (Some ''f'') (Some ''{\"a\":'')) False,
      Yield (fragmentChunk None None None (Some ''1}'')) False]"

definition exampleMalformed :: "stream_item list" where
  "exampleMalformed =
     [Yield (fragmentChunk (Some 0) (Some ''x'') (Some ''f'') (Some ''{a:1'')) False,
      Yield (fragmentChunk (Some 0) None None (Some ''}'')) False]"

definition exampleIncomplete :: "stream_item list" where
  "exampleIncomplete =
     [Yield (fragmentChunk (Some 1) (Some ''y'') None (Some ''{\"a\":1}'')) False,
      Yield (fragmentChunk (Some 0) (Some ''x'') (Some ''f'') (Some ''{\"a\":1}'')) False]"


text \<open>
  Two upstreams for the examples: one whose call throws, one that gives a stream. A
  constructor that does not throw and one that throws. A provider that has no client
  yet, a request without options, and a one-line message.
\<close>

definition constructs :: "openai_client \<Rightarrow> thrown option" where
  "constructs c = None"

definition constructorThrows :: "thrown \<Rightarrow> openai_client \<Rightarrow> thrown option" where
  "constructorThrows e c = Some e"

definition throwingUpstream ::
  "thrown \<Rightarrow> openai_client \<Rightarrow> (string \<times> int) list chat_completion_params \<Rightarrow> thrown + stream_item list" where
  "throwingUpstream e c params = Inl e"

definition streamingUpstream ::
  "stream_item list \<Rightarrow> openai_client \<Rightarrow> (string \<times> int) list chat_completion_params \<Rightarrow> thrown + stream_item list" where
  "streamingUpstream s c params = Inr s"

definition freshProvider :: provider_state where
  "freshProvider = \<lparr>client = None, lastApiKey = None\<rparr>"

definition plainOptions :: "(string \<times> int) list request_options" where
  "plainOptions = \<lparr>modelOptions = None, tools = None, toolMode = 1\<rparr>"

definition helloMessages :: "(string \<times> int) list language_model_chat_message list" where
  "helloMessages = [\<lparr>msg_role = User, msg_content = Text ''hello''\<rparr>]"

definition unauthorizedError :: thrown where
  "unauthorizedError =
     ErrorObject \<lparr>err_constructor = ''AuthenticationError'', err_message = ''401 Unauthorized'',
                  err_status = Some ''401'', err_code = None, err_type = None\<rparr>"

text \<open>
  A thrown value that is not an \<^verbatim>\<open>Error\<close> and that \<^verbatim>\<open>JSON.stringify\<close> rejects, such as
  an object that refers to itself, with the \<^verbatim>\<open>TypeError\<close> thrown for it.
\<close>

definition circularTypeError :: js_error where
  "circularTypeError =
     \<lparr>err_constructor = ''TypeError'', err_message = ''Converting circular structure to JSON'',
      err_status = None, err_code = None, err_type = None\<rparr>"

definition connectionError :: thrown where
  "connectionError =
     ErrorObject \<lparr>err_constructor = ''APIConnectionError'', err_message = ''Connection error.'',
                  err_status = None, err_code = None, err_type = None\<rparr>"

section \<open>Request construction: properties\<close>

text \<open>
  C3. The claim is that the built temperature is \<open>clamp (requested ?? 0.7) 0 2\<close>, so that
  a requested temperature of 0 yields 0. The code writes \<^verbatim>\<open>requested || 0.7\<close>: a
  requested temperature of 0 is falsy and is replaced by the default, and the request
  carries 0.7, although the clamp itself admits 0 (a request of -1 yields 0). The other
  values of the claim are as stated: absent yields 0.7, 5 yields 2, -1 yields 0.
\<close>

theorem temperature_zero_yields_default:
  "build_temperature \<lparr>modelOptions = Some \<lparr>maxTokens = mt, temperature = Some 0\<rparr>, tools = ts, toolMode = tm\<rparr> = 7 / 10
   \<and> build_temperature \<lparr>modelOptions = Some \<lparr>maxTokens = mt, temperature = Some (- 1)\<rparr>, tools = ts, toolMode = tm\<rparr> = 0
   \<and> build_temperature \<lparr>modelOptions = Some \<lparr>maxTokens = mt, temperature = Some 5\<rparr>, tools = ts, toolMode = tm\<rparr> = 2
   \<and> build_temperature \<lparr>modelOptions = Some \<lparr>maxTokens = mt, temperature = None\<rparr>, tools = ts, toolMode = tm\<rparr> = 7 / 10
   \<and> build_temperature \<lparr>modelOptions = None, tools = ts, toolMode = tm\<rparr> = 7 / 10"
  by (simp add: build_temperature_def requested_temperature_def num_or_def)

text \<open>
  C4. The claim is that the built \<open>max_tokens\<close> is \<open>min (requested ?? 4000)
  maxOutputTokens\<close>, so that a requested 0 yields 0. The code writes
  \<^verbatim>\<open>requested || 4000\<close>, which treats a requested 0 like an absent value. As amended:
  an absent value or 0 defaults to 4000, so yields \<open>min 4000 maxOutputTokens\<close>; every
  other requested value \<open>n\<close> yields \<open>min n maxOutputTokens\<close>.
\<close>

theorem max_tokens_built:
  "(requested_maxTokens options = None \<longrightarrow>
      build_max_tokens model options = min 4000 (maxOutputTokens model))
   \<and> (requested_maxTokens options = Some 0 \<longrightarrow>
      build_max_tokens model options = min 4000 (maxOutputTokens model))
   \<and> (\<forall>n. requested_maxTokens options = Some n \<and> n \<noteq> 0 \<longrightarrow>
      build_max_tokens model options = min n (maxOutputTokens model))"
  by (simp add: build_max_tokens_def num_or_def)

theorem max_tokens_built_witness:
  "build_max_tokens v0_15_md
     (\<lparr>modelOptions = Some \<lparr>maxTokens = Some 999999, temperature = None\<rparr>, tools = None, toolMode = 1\<rparr>
        :: (string \<times> int) list request_options) = 64000
   \<and> build_max_tokens v0_15_md
     (\<lparr>modelOptions = None, tools = None, toolMode = 1\<rparr> :: (string \<times> int) list request_options) = 4000"
proof -
  let ?big = "\<lparr>modelOptions = Some \<lparr>maxTokens = Some 999999, temperature = None\<rparr>, tools = None, toolMode = 1\<rparr>
        :: (string \<times> int) list request_options"
  let ?none = "\<lparr>modelOptions = None, tools = None, toolMode = 1\<rparr> :: (string \<times> int) list request_options"
  have big: "requested_maxTokens ?big = Some 999999 \<and> (999999::int) \<noteq> 0"
    by (simp add: requested_maxTokens_def)
  have none: "requested_maxTokens ?none = None"
    by (simp add: requested_maxTokens_def)
  have out: "maxOutputTokens v0_15_md = 64000"
    by (simp add: v0_15_md_def getChatModelInfo_def)
  from max_tokens_built [of ?big v0_15_md] big
  have "build_max_tokens v0_15_md ?big = min 999999 (maxOutputTokens v0_15_md)" by blast
  moreover from max_tokens_built [of ?none v0_15_md] none
  have "build_max_tokens v0_15_md ?none = min 4000 (maxOutputTokens v0_15_md)" by blast
  ultimately show ?thesis using out by simp
qed

theorem max_tokens_zero_counterexample:
  "build_max_tokens v0_15_md
     (\<lparr>modelOptions = Some \<lparr>maxTokens = Some 0, temperature = None\<rparr>, tools = None, toolMode = 1\<rparr>
        :: (string \<times> int) list request_options) = 4000
   \<and> build_max_tokens v0_15_md
     (\<lparr>modelOptions = Some \<lparr>maxTokens = Some 0, temperature = None\<rparr>, tools = None, toolMode = 1\<rparr>
        :: (string \<times> int) list request_options) \<noteq> min 0 (maxOutputTokens v0_15_md)"
  by (simp add: build_max_tokens_def requested_maxTokens_def num_or_def v0_15_md_def getChatModelInfo_def)

section \<open>Message translation: properties\<close>

lemma convertRole_cases:
  "convertRole User = user \<and> convertRole Assistant = assistant \<and> convertRole System = user"
  by (simp add: convertRole_def)

subsection \<open>What \<open>trim\<close> leaves\<close>

text \<open>
  \<open>trim\<close> leaves nothing exactly of the texts that are white space only.
\<close>

lemma ws2_not_ws1: "ws2 a b \<Longrightarrow> \<not> ws1 a"
  by (auto simp: ws1_def ws2_def)

lemma ws3_not_ws1: "ws3 a b c \<Longrightarrow> \<not> ws1 a"
  by (auto simp: ws1_def ws3_def)

lemma ws3_not_ws2: "ws3 a b c \<Longrightarrow> \<not> ws2 a b'"
  by (auto simp: ws2_def ws3_def)

lemma strip_ws_one:
  assumes "ws1 a"
  shows "strip_ws w2 w3 (a # s) = strip_ws w2 w3 s"
proof (cases s)
  case Nil
  then show ?thesis using assms by simp
next
  case (Cons b s')
  then show ?thesis using assms by (cases s') simp_all
qed

lemma strip_ws_two: "\<not> ws1 a \<Longrightarrow> w2 a b \<Longrightarrow> strip_ws w2 w3 (a # b # s) = strip_ws w2 w3 s"
  by (cases s) simp_all

lemma strip_ws_three:
  "\<not> ws1 a \<Longrightarrow> \<not> w2 a b \<Longrightarrow> w3 a b c \<Longrightarrow> strip_ws w2 w3 (a # b # c # s) = strip_ws w2 w3 s"
  by simp

lemma whitespaceOnly_trimStart: "whitespaceOnly s \<Longrightarrow> trimStart s = []"
  unfolding trimStart_def
proof (induction rule: whitespaceOnly.induct)
  case empty
  then show ?case by simp
next
  case (one a s)
  then show ?case by (simp add: strip_ws_one)
next
  case (two a b s)
  then show ?case by (simp add: strip_ws_two ws2_not_ws1)
next
  case (three a b c s)
  then show ?case by (simp add: strip_ws_three ws3_not_ws1 ws3_not_ws2 del: strip_ws.simps)
qed

lemma strip_ws_idem: "strip_ws w2 w3 (strip_ws w2 w3 s) = strip_ws w2 w3 s"
  by (induction w2 w3 s rule: strip_ws.induct) auto

lemma whitespaceOnly_append:
  "whitespaceOnly s \<Longrightarrow> whitespaceOnly t \<Longrightarrow> whitespaceOnly (s @ t)"
  by (induction rule: whitespaceOnly.induct) (auto intro: whitespaceOnly.intros)

lemma strip_rev_whitespaceOnly:
  "strip_ws (\<lambda>a b. ws2 b a) (\<lambda>a b c. ws3 c b a) y = [] \<Longrightarrow> whitespaceOnly (rev y)"
proof (induction "\<lambda>a b. ws2 b a" "\<lambda>a b c. ws3 c b a" y rule: strip_ws.induct)
  case (1 a b c s)
  show ?case
  proof (cases "ws1 a")
    case True
    then have "whitespaceOnly (rev (b # c # s))" using 1 by simp
    moreover have "whitespaceOnly [a]" using True by (auto intro: whitespaceOnly.intros)
    ultimately show ?thesis using whitespaceOnly_append [of "rev (b # c # s)" "[a]"] by simp
  next
    case False
    show ?thesis
    proof (cases "ws2 b a")
      case True
      then have "whitespaceOnly (rev (c # s))" using 1 False by simp
      moreover have "whitespaceOnly [b, a]" using True by (auto intro: whitespaceOnly.intros)
      ultimately show ?thesis using whitespaceOnly_append [of "rev (c # s)" "[b, a]"] by simp
    next
      case nw2: False
      then have w3: "ws3 c b a" using 1(4) False by (auto split: if_splits)
      then have "whitespaceOnly (rev s)" using 1 False nw2 by simp
      moreover have "whitespaceOnly [c, b, a]" using w3 by (auto intro: whitespaceOnly.intros)
      ultimately show ?thesis using whitespaceOnly_append [of "rev s" "[c, b, a]"] by simp
    qed
  qed
next
  case (2 a b)
  then show ?case
    by (auto split: if_splits intro: whitespaceOnly.intros)
next
  case (3 a)
  then show ?case by (auto split: if_splits intro: whitespaceOnly.intros)
next
  case 4
  then show ?case by (simp add: whitespaceOnly.intros)
qed

lemma strip_whitespaceOnly:
  "strip_ws ws2 ws3 s = [] \<Longrightarrow> whitespaceOnly s"
proof (induction ws2 ws3 s rule: strip_ws.induct)
  case (1 a b c s)
  then show ?case by (auto split: if_splits intro: whitespaceOnly.intros)
next
  case (2 a b)
  then show ?case by (auto split: if_splits intro: whitespaceOnly.intros)
next
  case (3 a)
  then show ?case by (auto split: if_splits intro: whitespaceOnly.intros)
next
  case 4
  then show ?case by (simp add: whitespaceOnly.intros)
qed

lemma trim_empty_iff: "trim s = [] \<longleftrightarrow> whitespaceOnly s"
proof
  assume "trim s = []"
  then have "strip_ws (\<lambda>a b. ws2 b a) (\<lambda>a b c. ws3 c b a) (rev (trimStart s)) = []"
    by (simp add: trim_def trimEnd_def)
  then have "whitespaceOnly (trimStart s)"
    using strip_rev_whitespaceOnly by fastforce
  then have "trimStart (trimStart s) = []" by (rule whitespaceOnly_trimStart)
  then have start: "trimStart s = []" by (simp add: trimStart_def strip_ws_idem)
  then show "whitespaceOnly s" by (simp add: trimStart_def strip_whitespaceOnly)
next
  assume "whitespaceOnly s"
  then show "trim s = []" by (simp add: trim_def trimEnd_def whitespaceOnly_trimStart)
qed

text \<open>
  C6. The claim is that a message whose content is a single text with a non-white-space
  character gives exactly one outbound message, with the mapped role and the trimmed text
  as content, and that a text that is empty or white space only gives none. The code
  trims only to test for emptiness and sends the text as it came. As amended: the
  content of the outbound message is the text itself, untrimmed; the rest stands.
\<close>

theorem text_message_translated:
  "msg_content msg = Text t \<Longrightarrow>
   (\<not> whitespaceOnly t \<longrightarrow>
      translateMessage stringify stringify_part msg =
        [\<lparr>out_role = (case msg_role msg of User \<Rightarrow> user | Assistant \<Rightarrow> assistant | System \<Rightarrow> user),
          out_content = t, tool_call_id = None, tool_calls = None\<rparr>])
   \<and> (whitespaceOnly t \<longrightarrow> translateMessage stringify stringify_part msg = [])"
  using trim_empty_iff [of t]
  by (cases "msg_role msg") (simp_all add: translateMessage_def convertRole_def)

theorem text_message_translated_witness:
  "translateMessage stringifyExample stringifyPartExample
     \<lparr>msg_role = Assistant, msg_content = Text ''hello there''\<rparr> =
     [\<lparr>out_role = assistant, out_content = ''hello there'', tool_call_id = None, tool_calls = None\<rparr>]
   \<and> translateMessage stringifyExample stringifyPartExample
     \<lparr>msg_role = User, msg_content = Text [CHR 0x20, CHR 0x09, CHR 0x0A]\<rparr> = []"
proof -
  let ?m1 = "\<lparr>msg_role = Assistant, msg_content = Text ''hello there''\<rparr> :: (string \<times> int) list language_model_chat_message"
  let ?m2 = "\<lparr>msg_role = User, msg_content = Text [CHR 0x20, CHR 0x09, CHR 0x0A]\<rparr> :: (string \<times> int) list language_model_chat_message"
  have "trim ''hello there'' \<noteq> []" by code_simp
  then have t1: "\<not> whitespaceOnly ''hello there''" by (simp add: trim_empty_iff)
  have "trim [CHR 0x20, CHR 0x09, CHR 0x0A] = []" by code_simp
  then have t2: "whitespaceOnly [CHR 0x20, CHR 0x09, CHR 0x0A]" by (simp add: trim_empty_iff)
  have c1: "msg_content ?m1 = Text ''hello there''" by simp
  have c2: "msg_content ?m2 = Text [CHR 0x20, CHR 0x09, CHR 0x0A]" by simp
  from text_message_translated [OF c1, of stringifyExample stringifyPartExample] t1
  have "translateMessage stringifyExample stringifyPartExample ?m1 =
          [\<lparr>out_role = assistant, out_content = ''hello there'', tool_call_id = None, tool_calls = None\<rparr>]"
    by simp
  moreover from text_message_translated [OF c2, of stringifyExample stringifyPartExample] t2
  have "translateMessage stringifyExample stringifyPartExample ?m2 = []" by simp
  ultimately show ?thesis by simp
qed

theorem text_message_untrimmed_counterexample:
  "translateMessage stringifyExample stringifyPartExample
     \<lparr>msg_role = User, msg_content = Text '' hi ''\<rparr> =
     [\<lparr>out_role = user, out_content = '' hi '', tool_call_id = None, tool_calls = None\<rparr>]
   \<and> trim '' hi '' = ''hi''
   \<and> '' hi '' \<noteq> ''hi''"
proof -
  have t: "trim '' hi '' = ''hi''" by code_simp
  show ?thesis by (simp add: translateMessage_def convertRole_def t)
qed





section \<open>The response stream: the loop\<close>

text \<open>
  Over a run of items it goes on from, the loop reports their text events and hands the
  table with their fragments on to the rest of the stream.
\<close>

lemma streamLoop_continuing:
  "\<forall>x\<in>set pre. continuing x \<Longrightarrow>
   streamLoop parse tbl (pre @ rest) =
     (streamText pre @ fst (streamLoop parse (foldl trackToolCall tbl (streamToolCalls pre)) rest),
      snd (streamLoop parse (foldl trackToolCall tbl (streamToolCalls pre)) rest))"
proof (induction pre arbitrary: tbl)
  case Nil
  then show ?case by (simp add: streamText_def streamToolCalls_def)
next
  case (Cons x pre)
  then show ?case
    by (cases x)
       (simp_all add: continuing_def processChunk_def streamText_def streamToolCalls_def
          split: prod.splits)
qed


lemma streamLoop_finish:
  assumes "\<forall>x\<in>set pre. continuing x" and "chunkFinish c = Some ''tool_calls''"
  shows "streamLoop parse [] (pre @ Yield c False # rest) =
           (streamText pre @ textEvent c @ processCompleted parse (tableAfter pre), None)"
proof -
  have "truthy (chunkFinish c)" using assms(2) by (simp add: truthy_def)
  then have "streamLoop parse tbl (Yield c False # rest) =
               (textEvent c @ processCompleted parse tbl, None)" for tbl
    using assms(2) by (simp add: processChunk_def)
  then show ?thesis
    using streamLoop_continuing [OF assms(1), of parse "[]" "Yield c False # rest"]
    by (simp add: tableAfter_def)
qed

lemma textEvent_is_text: "e \<in> set (textEvent c) \<Longrightarrow> \<not> isToolCallPart (part e)"
  by (auto simp: textEvent_def split: option.splits if_splits)

lemma streamText_is_text: "filter (\<lambda>e. isToolCallPart (part e)) (streamText items) = []"
  by (auto simp: streamText_def filter_empty_conv textEvent_is_text split: stream_item.splits)


subsection \<open>The table of pending calls\<close>

lemma trackToolCall_distinct:
  "distinct (map fst tbl) \<Longrightarrow> distinct (map fst (trackToolCall tbl tc))"
  by (simp add: trackToolCall_def Let_def AList.distinct_update)

lemma foldl_track_distinct:
  "distinct (map fst tbl) \<Longrightarrow> distinct (map fst (foldl trackToolCall tbl tcs))"
  by (induction tcs arbitrary: tbl) (simp_all add: trackToolCall_distinct)

lemma tableAfter_distinct: "distinct (map fst (tableAfter items))"
  by (simp add: tableAfter_def foldl_track_distinct)

lemma lastTruthy_snoc:
  "lastTruthy (xs @ [x]) = (if truthy x then x else lastTruthy xs)"
  by (simp add: lastTruthy_def)

lemma lastTruthy_truthy: "lastTruthy xs = Some s \<Longrightarrow> s \<noteq> []"
proof (induction xs arbitrary: s rule: rev_induct)
  case Nil
  then show ?case by (simp add: lastTruthy_def)
next
  case (snoc x xs)
  then show ?case by (auto simp: lastTruthy_snoc truthy_def split: if_splits option.splits)
qed

lemma accumulated_empty:
  "accumulated [] = \<lparr>pending_id = None, pending_name = None, pending_arguments = []\<rparr>"
  by (simp add: accumulated_def lastTruthy_def)

text \<open>The code's \<^verbatim>\<open>toolCall.index || 0\<close> is the declared index.\<close>

lemma deltaIndex_declared: "deltaIndex tc = declaredIndex tc"
  by (simp add: deltaIndex_def declaredIndex_def num_or_def split: option.splits)

text \<open>
  The entry of the table for an index is what the fragments for that index add up to;
  there is an entry as soon as there is a fragment.
\<close>

lemma track_map_of:
  "map_of (foldl trackToolCall [] tcs) i =
     (if filter (\<lambda>tc. declaredIndex tc = i) tcs = [] then None
      else Some (accumulated (filter (\<lambda>tc. declaredIndex tc = i) tcs)))"
proof (induction tcs rule: rev_induct)
  case Nil
  then show ?case by simp
next
  case (snoc tc tcs)
  let ?T = "foldl trackToolCall [] tcs"
  let ?F = "filter (\<lambda>tc. declaredIndex tc = i) tcs"
  show ?case
  proof (cases "declaredIndex tc = i")
    case False
    then have "map_of (trackToolCall ?T tc) i = map_of ?T i"
      by (simp add: trackToolCall_def Let_def update_conv' deltaIndex_declared)
    then show ?thesis using snoc False by simp
  next
    case True
    have e0: "(case map_of ?T i of
                 None \<Rightarrow> \<lparr>pending_id = None, pending_name = None, pending_arguments = []\<rparr>
               | Some e \<Rightarrow> e) = accumulated ?F"
      using snoc by (simp add: accumulated_empty)
    have "map_of (trackToolCall ?T tc) i = Some (accumulated (?F @ [tc]))"
      using True e0
      by (simp add: trackToolCall_def Let_def update_conv' accumulated_def lastTruthy_snoc
            argumentText_def deltaIndex_declared split: option.splits)
    then show ?thesis using True by simp
  qed
qed

lemma tableAfter_map_of:
  "map_of (tableAfter items) i =
     (if fragmentsFor i items = [] then None else Some (accumulated (fragmentsFor i items)))"
  by (simp add: tableAfter_def fragmentsFor_def track_map_of)

subsection \<open>The events of a finish\<close>

lemma reportToolCall_cases:
  "reportToolCall parse (k, d) = [] \<or> (\<exists>p. reportToolCall parse (k, d) = [\<lparr>index = k, part = p\<rparr>])"
  by (auto simp: reportToolCall_def split: option.splits if_splits)


lemma filter_report_entries:
  "distinct (map fst xs) \<Longrightarrow>
   filter (\<lambda>e. index e = i) (concat (map (reportToolCall parse) xs)) =
     (case map_of xs i of None \<Rightarrow> [] | Some d \<Rightarrow> reportToolCall parse (i, d))"
proof (induction xs)
  case Nil
  then show ?case by simp
next
  case (Cons x xs)
  obtain k d where x: "x = (k, d)" by (cases x)
  have not_in: "k = i \<Longrightarrow> map_of xs i = None"
    using Cons.prems x by (simp add: map_of_eq_None_iff)
  have here: "filter (\<lambda>e. index e = i) (reportToolCall parse (k, d)) =
                (if k = i then reportToolCall parse (k, d) else [])"
    using reportToolCall_cases [of parse k d] by auto
  show ?case using Cons x not_in here by (auto split: option.splits)
qed

lemma Object_entries_distinct:
  "distinct (map fst tbl) \<Longrightarrow> distinct (map fst (Object_entries tbl))"
proof -
  assume d: "distinct (map fst tbl)"
  have "distinct tbl" and "inj_on fst (set tbl)" using d by (simp_all add: distinct_map)
  then show ?thesis
    by (auto simp: Object_entries_def distinct_map intro: inj_on_subset)
qed

lemma Object_entries_set: "set (Object_entries tbl) = set tbl"
  by (auto simp: Object_entries_def)

lemma Object_entries_map_of:
  "distinct (map fst tbl) \<Longrightarrow> map_of (Object_entries tbl) = map_of tbl"
proof -
  assume d: "distinct (map fst tbl)"
  have "distinct (map fst (Object_entries tbl))" using d by (rule Object_entries_distinct)
  moreover have "set (Object_entries tbl) = set tbl" by (rule Object_entries_set)
  ultimately show ?thesis using d map_of_inject_set by blast
qed

lemma processCompleted_at:
  "distinct (map fst tbl) \<Longrightarrow>
   filter (\<lambda>e. index e = i) (processCompleted parse tbl) =
     (case map_of tbl i of None \<Rightarrow> [] | Some d \<Rightarrow> reportToolCall parse (i, d))"
  by (simp add: processCompleted_def filter_report_entries Object_entries_distinct
        Object_entries_map_of)






text \<open>An entry that reports nothing can be left out of the table.\<close>

lemma processCompleted_delete:
  assumes "map_of tbl i = Some d" and "reportToolCall parse (i, d) = []"
    and "distinct (map fst tbl)"
  shows "processCompleted parse tbl = processCompleted parse (AList.delete i tbl)"
proof -
  have same: "\<And>x. x \<in> set (Object_entries tbl) \<Longrightarrow> fst x = i \<Longrightarrow> reportToolCall parse x = []"
  proof -
    fix x assume "x \<in> set (Object_entries tbl)" and "fst x = i"
    then have "x \<in> set tbl" and "fst x = i" by (simp_all add: Object_entries_set)
    then have "map_of tbl i = Some (snd x)"
      using assms(3) map_of_is_SomeI [of tbl "fst x" "snd x"] by (cases x) auto
    then have "snd x = d" using assms(1) by simp
    then show "reportToolCall parse x = []" using assms(2) \<open>fst x = i\<close> by (cases x) simp
  qed
  have del: "Object_entries (AList.delete i tbl) = filter (\<lambda>x. fst x \<noteq> i) (Object_entries tbl)"
  proof -
    have "(\<lambda>(k', v). i \<noteq> k') = (\<lambda>x :: nat \<times> pending. fst x \<noteq> i)" by auto
    then show ?thesis
      by (simp add: Object_entries_def AList.delete_eq filter_sort conj_commute)
  qed
  have "concat (map (reportToolCall parse) (filter (\<lambda>x. fst x \<noteq> i) xs)) =
          concat (map (reportToolCall parse) xs)"
    if "\<And>x. x \<in> set xs \<Longrightarrow> fst x = i \<Longrightarrow> reportToolCall parse x = []" for xs
    using that by (induction xs) auto
  then show ?thesis using same by (simp add: processCompleted_def del)
qed

section \<open>The response stream: properties\<close>

text \<open>
  Running the finish on a table that is given outright.
\<close>

lemma processCompleted_two:
  "k < k' \<Longrightarrow> isArrayIndex k' \<Longrightarrow>
   processCompleted parse [(k', d'), (k, d)] = reportToolCall parse (k, d) @ reportToolCall parse (k', d')"
  "k < k' \<Longrightarrow> isArrayIndex k' \<Longrightarrow>
   processCompleted parse [(k, d), (k', d')] = reportToolCall parse (k, d) @ reportToolCall parse (k', d')"
  "\<not> isArrayIndex k \<Longrightarrow> \<not> isArrayIndex k' \<Longrightarrow>
   processCompleted parse [(k, d), (k', d')] = reportToolCall parse (k, d) @ reportToolCall parse (k', d')"
  "processCompleted parse [(k, d)] = reportToolCall parse (k, d)"
  by (auto simp: processCompleted_def Object_entries_def isArrayIndex_def)




text \<open>
  C5. The claim is that, when the accumulated arguments of a call with id and name do
  not parse, the text event reported at the index of the call has the content
  \<open>name(argumentsBuffer)\<close>, for example exactly \<^verbatim>\<open>f({a:1})\<close>. The code wraps that
  rendering: the content is \<^verbatim>\<open>[Tool Call: name(argumentsBuffer)]\<close>, for example
  \<^verbatim>\<open>[Tool Call: f({a:1})]\<close>. As amended, with that content: the events of the stream
  are the text events of the chunks followed by the events of the finish, and the finish
  reports for index \<open>i\<close> exactly that one text event.
\<close>

theorem unparsable_arguments_reported_as_text:
  assumes pre: "\<forall>x\<in>set pre. continuing x"
    and fin: "chunkFinish c = Some ''tool_calls''"
    and ident: "lastTruthy (map tc_id (fragmentsFor i pre)) = Some x"
    and name: "lastTruthy (map deltaName (fragmentsFor i pre)) = Some f"
    and nonempty: "concat (map argumentText (fragmentsFor i pre)) \<noteq> []"
    and unparsed: "parse (concat (map argumentText (fragmentsFor i pre))) = None"
  shows "streamLoop parse [] (pre @ Yield c False # rest) =
           (streamText pre @ textEvent c @ processCompleted parse (tableAfter pre), None)
         \<and> filter (\<lambda>e. index e = i) (processCompleted parse (tableAfter pre)) =
           [\<lparr>index = i,
             part = LanguageModelTextPart
               (''[Tool Call: '' @ f @ ''('' @ concat (map argumentText (fragmentsFor i pre)) @ '')]'')\<rparr>]"
proof -
  let ?F = "fragmentsFor i pre"
  have frags: "?F \<noteq> []"
    using ident by (auto simp: lastTruthy_def)
  have entry: "map_of (tableAfter pre) i = Some (accumulated ?F)"
    using frags by (simp add: tableAfter_map_of)
  have "x \<noteq> []" and "f \<noteq> []"
    using ident name by (auto dest: lastTruthy_truthy)
  then have report: "reportToolCall parse (i, accumulated ?F) =
      [\<lparr>index = i,
        part = LanguageModelTextPart (''[Tool Call: '' @ f @ ''('' @ concat (map argumentText ?F) @ '')]'')\<rparr>]"
    using ident name nonempty unparsed by (simp add: reportToolCall_def accumulated_def)
  show ?thesis
    using streamLoop_finish [OF pre fin, of parse rest]
      processCompleted_at [OF tableAfter_distinct, of i parse pre] entry report
    by simp
qed

theorem unparsable_arguments_reported_as_text_witness:
  "streamLoop parseExample [] (exampleMalformed @ Yield (finishChunk ''tool_calls'') False # []) =
     (streamText exampleMalformed @ textEvent (finishChunk ''tool_calls'')
        @ processCompleted parseExample (tableAfter exampleMalformed), None)
   \<and> filter (\<lambda>e. index e = 0) (processCompleted parseExample (tableAfter exampleMalformed)) =
     [\<lparr>index = 0, part = LanguageModelTextPart ''[Tool Call: f({a:1})]''\<rparr>]"
proof -
  have h1: "\<forall>x\<in>set exampleMalformed. continuing x" by code_simp
  have h2: "chunkFinish (finishChunk ''tool_calls'') = Some ''tool_calls''" by code_simp
  have h3: "lastTruthy (map tc_id (fragmentsFor 0 exampleMalformed)) = Some ''x''" by code_simp
  have h4: "lastTruthy (map deltaName (fragmentsFor 0 exampleMalformed)) = Some ''f''" by code_simp
  have h5: "concat (map argumentText (fragmentsFor 0 exampleMalformed)) \<noteq> []" by code_simp
  have h6: "parseExample (concat (map argumentText (fragmentsFor 0 exampleMalformed))) = None"
    by code_simp
  have buf: "concat (map argumentText (fragmentsFor 0 exampleMalformed)) = ''{a:1}''" by code_simp
  show ?thesis
    using unparsable_arguments_reported_as_text
      [where parse = parseExample and pre = exampleMalformed and i = 0 and rest = "[]",
       OF h1 h2 h3 h4 h5 h6]
    by (simp add: buf)
qed

theorem fallback_text_counterexample:
  "fst (streamLoop parseExample []
          [Yield (fragmentChunk (Some 0) (Some ''x'') (Some ''f'') (Some ''{a:1'')) False,
           Yield (fragmentChunk (Some 0) None None (Some ''}'')) False,
           Yield (finishChunk ''tool_calls'') False]) =
     [\<lparr>index = 0, part = LanguageModelTextPart ''[Tool Call: f({a:1})]''\<rparr>]
   \<and> ''[Tool Call: f({a:1})]'' \<noteq> ''f({a:1})''"
  by (simp add: fragmentChunk_def finishChunk_def processChunk_def chunkFinish_def truthy_def
        textEvent_def chunkDelta_def chunkToolCalls_def trackToolCall_def deltaIndex_def
        num_or_def deltaName_def deltaArguments_def processCompleted_two
        reportToolCall_def parseExample_def)

text \<open>
  C8. Let the chunks \<open>pre\<close> be consumed without cancellation and without a finish reason,
  and let there be fragments for index \<open>i\<close> that leave the call without an id, without a
  name or with an empty argument text. At the \<open>tool_calls\<close> finish the loop ends
  normally, nothing is thrown, the finish reports no event for index \<open>i\<close>, and it reports
  for the other entries exactly what it reports when the entry for \<open>i\<close> is not in the
  table.
\<close>

theorem incomplete_call_dropped:
  assumes pre: "\<forall>x\<in>set pre. continuing x"
    and fin: "chunkFinish c = Some ''tool_calls''"
    and frags: "fragmentsFor i pre \<noteq> []"
    and missing: "lastTruthy (map tc_id (fragmentsFor i pre)) = None
                  \<or> lastTruthy (map deltaName (fragmentsFor i pre)) = None
                  \<or> concat (map argumentText (fragmentsFor i pre)) = []"
  shows "streamLoop parse [] (pre @ Yield c False # rest) =
           (streamText pre @ textEvent c @ processCompleted parse (tableAfter pre), None)
         \<and> filter (\<lambda>e. index e = i) (processCompleted parse (tableAfter pre)) = []
         \<and> processCompleted parse (tableAfter pre) =
             processCompleted parse (AList.delete i (tableAfter pre))"
proof -
  let ?F = "fragmentsFor i pre"
  have entry: "map_of (tableAfter pre) i = Some (accumulated ?F)"
    using frags by (simp add: tableAfter_map_of)
  have report: "reportToolCall parse (i, accumulated ?F) = []"
    using missing by (auto simp: reportToolCall_def accumulated_def split: option.splits)
  have "filter (\<lambda>e. index e = i) (processCompleted parse (tableAfter pre)) = []"
    using processCompleted_at [OF tableAfter_distinct, of i parse pre] entry report by simp
  moreover have "processCompleted parse (tableAfter pre) =
                   processCompleted parse (AList.delete i (tableAfter pre))"
    using processCompleted_delete [OF entry report tableAfter_distinct] .
  ultimately show ?thesis
    using streamLoop_finish [OF pre fin, of parse rest] by simp
qed

theorem incomplete_call_dropped_witness:
  "streamLoop parseExample [] (exampleIncomplete @ Yield (finishChunk ''tool_calls'') False # []) =
     ([\<lparr>index = 0, part = LanguageModelToolCallPart ''x'' ''f'' [(''a'', 1)]\<rparr>], None)
   \<and> filter (\<lambda>e. index e = 1) (processCompleted parseExample (tableAfter exampleIncomplete)) = []"
proof -
  have h1: "\<forall>x\<in>set exampleIncomplete. continuing x" by code_simp
  have h2: "chunkFinish (finishChunk ''tool_calls'') = Some ''tool_calls''" by code_simp
  have h3: "fragmentsFor 1 exampleIncomplete \<noteq> []" by code_simp
  have h4: "lastTruthy (map tc_id (fragmentsFor 1 exampleIncomplete)) = None
            \<or> lastTruthy (map deltaName (fragmentsFor 1 exampleIncomplete)) = None
            \<or> concat (map argumentText (fragmentsFor 1 exampleIncomplete)) = []"
    by code_simp
  have tbl: "tableAfter exampleIncomplete =
               [(1, \<lparr>pending_id = Some ''y'', pending_name = None, pending_arguments = ''{\"a\":1}''\<rparr>),
                (0, \<lparr>pending_id = Some ''x'', pending_name = Some ''f'', pending_arguments = ''{\"a\":1}''\<rparr>)]"
    by code_simp
  have texts: "(streamText exampleIncomplete @ textEvent (finishChunk ''tool_calls'')
               :: (string \<times> int) list chat_response_fragment list) = []"
    by code_simp
  have evs: "streamText exampleIncomplete @ textEvent (finishChunk ''tool_calls'')
               @ processCompleted parseExample (tableAfter exampleIncomplete) =
             [\<lparr>index = 0, part = LanguageModelToolCallPart ''x'' ''f'' [(''a'', 1)]\<rparr>]"
    using texts
    by (simp add: tbl processCompleted_two isArrayIndex_def reportToolCall_def parseExample_def)
  note inst = incomplete_call_dropped
      [where parse = parseExample and pre = exampleIncomplete and i = 1 and rest = "[]",
       OF h1 h2 h3 h4]
  from inst have e1: "streamLoop parseExample []
                        (exampleIncomplete @ Yield (finishChunk ''tool_calls'') False # []) =
                      (streamText exampleIncomplete @ textEvent (finishChunk ''tool_calls'')
                         @ processCompleted parseExample (tableAfter exampleIncomplete), None)"
    by blast
  from inst have e2: "filter (\<lambda>e. index e = 1)
                        (processCompleted parseExample (tableAfter exampleIncomplete)) = []"
    by blast
  show ?thesis using e1 e2 evs by simp
qed

text \<open>
  C9. Let the chunks \<open>pre\<close> be consumed without cancellation and without a finish reason,
  and let cancellation be requested when the next chunk is taken up. The loop ends
  normally there: what it has reported is the text events of \<open>pre\<close> and nothing else,
  whatever that chunk and the rest of the stream hold, and no tool-call event is among
  them.
\<close>

theorem cancellation_ends_emission:
  assumes pre: "\<forall>x\<in>set pre. continuing x"
  shows "streamLoop (parse :: string \<Rightarrow> 'j option) [] (pre @ Yield c True # rest) =
           (streamText pre, None)
         \<and> filter (\<lambda>e. isToolCallPart (part e)) (streamText pre :: 'j chat_response_fragment list) = []"
  using streamLoop_continuing [OF pre, of parse "[]" "Yield c True # rest"]
  by (simp add: streamText_is_text)

theorem cancellation_ends_emission_witness:
  "streamLoop parseExample []
     (exampleCall @ Yield (finishChunk ''tool_calls'') True # [Yield (textChunk ''late'') False]) =
     ([\<lparr>index = 0, part = LanguageModelTextPart ''Hi''\<rparr>], None)"
proof -
  have h1: "\<forall>x\<in>set exampleCall. continuing x" by code_simp
  have t: "(streamText exampleCall :: (string \<times> int) list chat_response_fragment list) =
             [\<lparr>index = 0, part = LanguageModelTextPart ''Hi''\<rparr>]"
    by code_simp
  note inst = cancellation_ends_emission
      [where parse = parseExample and pre = exampleCall
         and c = "finishChunk ''tool_calls''" and rest = "[Yield (textChunk ''late'') False]",
       OF h1]
  from inst have "streamLoop parseExample []
                    (exampleCall @ Yield (finishChunk ''tool_calls'') True
                       # [Yield (textChunk ''late'') False]) =
                  (streamText exampleCall, None)"
    by blast
  then show ?thesis using t by simp
qed

lemma withoutToolCalls_finish: "chunkFinish (withoutToolCalls c) = chunkFinish c"
  by (cases c) (auto simp: withoutToolCalls_def chunkFinish_def)

lemma withoutToolCalls_text: "textEvent (withoutToolCalls c) = textEvent c"
  by (cases c)
     (auto simp: withoutToolCalls_def textEvent_def chunkDelta_def split: option.splits)

lemma withoutToolCalls_none: "chunkToolCalls (withoutToolCalls c) = []"
  by (cases c)
     (auto simp: withoutToolCalls_def chunkToolCalls_def chunkDelta_def split: option.splits)

lemma streamLoop_suffix_cong:
  "(\<And>tbl. streamLoop parse tbl xs = streamLoop parse tbl ys) \<Longrightarrow>
   streamLoop parse tbl (pre @ xs) = streamLoop parse tbl (pre @ ys)"
proof (induction pre arbitrary: tbl)
  case Nil
  then show ?case by simp
next
  case (Cons x pre)
  then show ?case by (cases x) (simp_all split: prod.splits loop_control.splits)
qed

text \<open>
  C10. A chunk with a truthy finish reason ends the loop before its tool-call fragments
  are looked at: processing it gives the same events as processing the chunk without its
  tool-call fragments, no table is handed on, and the events of any stream up to and
  including that chunk are those of the stream with the fragments of that chunk removed
  and nothing after it.
\<close>

theorem finish_before_fragments:
  assumes "truthy (chunkFinish c)"
  shows "chunkToolCalls (withoutToolCalls c) = []
         \<and> processChunk parse tbl c = processChunk parse tbl (withoutToolCalls c)
         \<and> snd (processChunk parse tbl c) = Break
         \<and> streamLoop parse tbl (pre @ Yield c cancelled # rest) =
             streamLoop parse tbl (pre @ [Yield (withoutToolCalls c) cancelled])"
proof -
  have same: "processChunk parse t c = processChunk parse t (withoutToolCalls c)" for t
    using assms by (simp add: processChunk_def withoutToolCalls_finish withoutToolCalls_text)
  have brk: "snd (processChunk parse t c) = Break" for t
    using assms by (simp add: processChunk_def)
  have "streamLoop parse t (Yield c cancelled # rest) =
          streamLoop parse t [Yield (withoutToolCalls c) cancelled]" for t
  proof -
    obtain evs where p: "processChunk parse t c = (evs, Break)"
      using brk [of t] by (cases "processChunk parse t c") auto
    then have "processChunk parse t (withoutToolCalls c) = (evs, Break)"
      using same [of t] by simp
    with p show ?thesis by simp
  qed
  then have "streamLoop parse tbl (pre @ Yield c cancelled # rest) =
               streamLoop parse tbl (pre @ [Yield (withoutToolCalls c) cancelled])"
    by (rule streamLoop_suffix_cong)
  then show ?thesis using same brk withoutToolCalls_none by simp
qed

theorem finish_before_fragments_witness:
  "streamLoop parseExample []
     ([] @ Yield (Some \<lparr>choice_delta = Some \<lparr>delta_content = Some ''done'',
                          delta_tool_calls = Some [\<lparr>tc_index = Some 0, tc_id = Some ''x'',
                            tc_function = Some \<lparr>fn_name = Some ''f'', fn_arguments = Some ''{\"a\":1}''\<rparr>\<rparr>]\<rparr>,
                        finish_reason = Some ''tool_calls''\<rparr>) False # []) =
     ([\<lparr>index = 0, part = LanguageModelTextPart ''done''\<rparr>], None)"
proof -
  let ?c = "Some \<lparr>choice_delta = Some \<lparr>delta_content = Some ''done'',
                          delta_tool_calls = Some [\<lparr>tc_index = Some 0, tc_id = Some ''x'',
                            tc_function = Some \<lparr>fn_name = Some ''f'', fn_arguments = Some ''{\"a\":1}''\<rparr>\<rparr>]\<rparr>,
                        finish_reason = Some ''tool_calls''\<rparr>"
  have h: "truthy (chunkFinish ?c)" by code_simp
  have r: "streamLoop parseExample [] ([] @ [Yield (withoutToolCalls ?c) False]) =
             ([\<lparr>index = 0, part = LanguageModelTextPart ''done''\<rparr>], None)"
    by (simp add: withoutToolCalls_def processChunk_def chunkFinish_def truthy_def textEvent_def
          chunkDelta_def processCompleted_def Object_entries_def)
  note inst = finish_before_fragments [where parse = parseExample and tbl = "[]" and pre = "[]"
        and rest = "[]" and cancelled = False, OF h]
  from inst have "streamLoop parseExample [] ([] @ Yield ?c False # []) =
                  streamLoop parseExample [] ([] @ [Yield (withoutToolCalls ?c) False])"
    by blast
  then show ?thesis using r by simp
qed

section \<open>The chat response: failures\<close>

lemma ensureClient_none:
  "(\<exists>this'. ensureClient newOpenAI this envKey configKey = Inr (this', None))
     \<longleftrightarrow> getApiKey envKey configKey = None"
  by (auto simp: ensureClient_def getApiKey_def truthy_def Let_def split: option.splits if_splits)

lemma streamLoop_fails:
  "\<forall>x\<in>set pre. continuing x \<Longrightarrow>
   streamLoop parse [] (pre @ Fail e # rest) = (streamText pre, Some e)"
  using streamLoop_continuing [of pre parse "[]" "Fail e # rest"] by simp

text \<open>
  What the \<^verbatim>\<open>catch\<close> block can report, it reports: with a client, a failure of the
  upstream call or of the stream whose text can be made gives that one text event after
  the events already reported, and nothing is thrown to the caller. Without a credential
  the only event is the text about the missing client.
\<close>

lemma reportable_failure_reported:
  assumes "ensureClient newOpenAI this envKey configKey = Inr (this', Some c)"
    and "tryBody parse stringify stringify_part upstream c model messages options = (evs, Some e)"
    and "errorText e = Inr text"
  shows "provideLanguageModelChatResponse parse stringify stringify_part newOpenAI upstream this envKey
           configKey model messages options =
           (this', evs @ [\<lparr>index = 0, part = LanguageModelTextPart text\<rparr>], None)"
  using assms by (simp add: provideLanguageModelChatResponse_def)

lemma stream_failure_reported:
  assumes "ensureClient newOpenAI this envKey configKey = Inr (this', Some c)"
    and "translate stringify stringify_part messages \<noteq> []"
    and "upstream c (requestParams model (translate stringify stringify_part messages) options) =
           Inr (pre @ Fail e # rest)"
    and "\<forall>x\<in>set pre. continuing x"
    and "errorText e = Inr text"
  shows "provideLanguageModelChatResponse parse stringify stringify_part newOpenAI upstream this envKey
           configKey model messages options =
           (this', streamText pre @ [\<lparr>index = 0, part = LanguageModelTextPart text\<rparr>], None)"
proof -
  have "tryBody parse stringify stringify_part upstream c model messages options =
          (streamText pre, Some e)"
    using assms(2,3) streamLoop_fails [OF assms(4)] by (simp add: tryBody_def Let_def)
  then show ?thesis by (rule reportable_failure_reported [OF assms(1) _ assms(5)])
qed

lemma missing_credential_reported:
  assumes "getApiKey envKey configKey = None"
  shows "snd (provideLanguageModelChatResponse parse stringify stringify_part newOpenAI upstream this
                envKey configKey model messages options) =
           ([\<lparr>index = 0, part = LanguageModelTextPart missingClientText\<rparr>], None)"
proof -
  obtain this' where "ensureClient newOpenAI this envKey configKey = Inr (this', None)"
    using assms ensureClient_none by blast
  then show ?thesis by (simp add: provideLanguageModelChatResponse_def)
qed

lemma errorText_example:
  "errorText unauthorizedError =
     Inr (''Error calling v0.dev API: '' @ crossMark
     @ '' Invalid API key. Please check your v0.dev API key and try again.\<newline>\<newline>Get your API key at: https://v0.dev/chat/settings/keys''
     @ ''\<newline>\<newline>Debug info:\<newline>- Error type: AuthenticationError\<newline>- Message: 401 Unauthorized\<newline>- HTTP Status: 401'')"
  by code_simp

lemma unauthorized_example:
  "\<exists>text. errorText unauthorizedError = Inr text
     \<and> provideLanguageModelChatResponse parseExample stringifyExample stringifyPartExample constructs
          (throwingUpstream unauthorizedError) freshProvider (Some ''key'') None
          v0_15_md helloMessages plainOptions =
        (\<lparr>client = Some \<lparr>apiKey = ''key'', baseURL = ''https://api.v0.dev/v1''\<rparr>,
          lastApiKey = Some ''key''\<rparr>,
         [\<lparr>index = 0, part = LanguageModelTextPart text\<rparr>], None)"
proof -
  have c: "ensureClient constructs freshProvider (Some ''key'') None =
             Inr (\<lparr>client = Some \<lparr>apiKey = ''key'', baseURL = ''https://api.v0.dev/v1''\<rparr>,
                    lastApiKey = Some ''key''\<rparr>,
                  Some \<lparr>apiKey = ''key'', baseURL = ''https://api.v0.dev/v1''\<rparr>)"
    by code_simp
  have t: "tryBody parseExample stringifyExample stringifyPartExample
             (throwingUpstream unauthorizedError)
             \<lparr>apiKey = ''key'', baseURL = ''https://api.v0.dev/v1''\<rparr> v0_15_md helloMessages plainOptions =
           ([], Some unauthorizedError)"
    by code_simp
  obtain report where e: "errorText unauthorizedError = Inr report"
    using errorText_example by blast
  show ?thesis
    using reportable_failure_reported [OF c t e] e by simp
qed

lemma failing_stream_example:
  "\<exists>report. errorText connectionError = Inr report
     \<and> snd (provideLanguageModelChatResponse parseExample stringifyExample stringifyPartExample
          constructs (streamingUpstream [Yield (textChunk ''Hi'') False, Fail connectionError])
          freshProvider (Some ''key'') None v0_15_md helloMessages plainOptions) =
        ([\<lparr>index = 0, part = LanguageModelTextPart ''Hi''\<rparr>,
          \<lparr>index = 0, part = LanguageModelTextPart report\<rparr>], None)"
proof -
  let ?c = "\<lparr>apiKey = ''key'', baseURL = ''https://api.v0.dev/v1''\<rparr>"
  have c: "ensureClient constructs freshProvider (Some ''key'') None =
             Inr (\<lparr>client = Some ?c, lastApiKey = Some ''key''\<rparr>, Some ?c)"
    by code_simp
  have m: "translate stringifyExample stringifyPartExample helloMessages \<noteq> []" by code_simp
  have u: "streamingUpstream [Yield (textChunk ''Hi'') False, Fail connectionError] ?c
             (requestParams v0_15_md (translate stringifyExample stringifyPartExample helloMessages)
                plainOptions) =
           Inr ([Yield (textChunk ''Hi'') False] @ Fail connectionError # [])"
    by (simp add: streamingUpstream_def)
  have p: "\<forall>x\<in>set [Yield (textChunk ''Hi'') False]. continuing x" by code_simp
  have e: "errorText connectionError =
             Inr (''Error calling v0.dev API: '' @ friendlyMessage ''Connection error.''
                  @ debugInfoOf \<lparr>err_constructor = ''APIConnectionError'',
                                 err_message = ''Connection error.'',
                                 err_status = None, err_code = None, err_type = None\<rparr>)"
    by (simp add: errorText_def connectionError_def)
  have s: "(streamText [Yield (textChunk ''Hi'') False]
              :: (string \<times> int) list chat_response_fragment list) =
           [\<lparr>index = 0, part = LanguageModelTextPart ''Hi''\<rparr>]"
    by code_simp
  show ?thesis
    using stream_failure_reported
      [where upstream = "streamingUpstream [Yield (textChunk ''Hi'') False, Fail connectionError]"
         and parse = parseExample and pre = "[Yield (textChunk ''Hi'') False]" and rest = "[]",
       OF c m u p e] e s
    by simp
qed

text \<open>
  What the \<^verbatim>\<open>catch\<close> block cannot report goes to the caller, after the events
  already reported; so does what the constructor throws.
\<close>

lemma unreportable_failure_thrown:
  assumes "ensureClient newOpenAI this envKey configKey = Inr (this', Some c)"
    and "tryBody parse stringify stringify_part upstream c model messages options =
           (evs, Some (NonError (StringifyThrows typeError)))"
  shows "provideLanguageModelChatResponse parse stringify stringify_part newOpenAI upstream this envKey
           configKey model messages options =
           (this', evs, Some (ErrorObject typeError))"
  using assms by (simp add: provideLanguageModelChatResponse_def errorText_def)

lemma constructor_failure_escapes:
  "provideLanguageModelChatResponse parseExample stringifyExample stringifyPartExample
     (constructorThrows connectionError) (throwingUpstream unauthorizedError) freshProvider
     (Some ''key'') None v0_15_md helloMessages plainOptions =
     (freshProvider, [], Some connectionError)"
  by (simp add: provideLanguageModelChatResponse_def ensureClient_def getApiKey_def truthy_def
        freshProvider_def constructorThrows_def)

text \<open>
  C2. The claim is that the call never throws to its caller: every failure becomes one
  reported text part and the call returns. The \<^verbatim>\<open>catch\<close> block, which is there to
  report every failure and has a branch of its own for values that are not
  \<^verbatim>\<open>Error\<close> objects, calls \<^verbatim>\<open>JSON.stringify(error)\<close> in that branch without a guard.
  When the upstream call fails with a value that \<^verbatim>\<open>JSON.stringify\<close> rejects, the
  \<^verbatim>\<open>TypeError\<close> leaves the \<^verbatim>\<open>catch\<close> block before anything is reported: the call
  throws to its caller and no text part is reported.
\<close>

theorem unserialisable_failure_escapes:
  "provideLanguageModelChatResponse parseExample stringifyExample stringifyPartExample constructs
     (throwingUpstream (NonError (StringifyThrows circularTypeError))) freshProvider (Some ''key'') None
     v0_15_md helloMessages plainOptions =
     (\<lparr>client = Some \<lparr>apiKey = ''key'', baseURL = ''https://api.v0.dev/v1''\<rparr>,
       lastApiKey = Some ''key''\<rparr>,
      [], Some (ErrorObject circularTypeError))"
proof -
  have c: "ensureClient constructs freshProvider (Some ''key'') None =
             Inr (\<lparr>client = Some \<lparr>apiKey = ''key'', baseURL = ''https://api.v0.dev/v1''\<rparr>,
                    lastApiKey = Some ''key''\<rparr>,
                  Some \<lparr>apiKey = ''key'', baseURL = ''https://api.v0.dev/v1''\<rparr>)"
    by code_simp
  have t: "tryBody parseExample stringifyExample stringifyPartExample
             (throwingUpstream (NonError (StringifyThrows circularTypeError)))
             \<lparr>apiKey = ''key'', baseURL = ''https://api.v0.dev/v1''\<rparr> v0_15_md helloMessages plainOptions =
           ([], Some (NonError (StringifyThrows circularTypeError)))"
    by code_simp
  show ?thesis
    by (simp add: provideLanguageModelChatResponse_def c t errorText_def)
qed

end
